theory Spec2Isabelle
  imports Complex_Main "HOL-Library.Sublist"
begin

section \<open>Counterfactuals of isolation forests (ceml/sklearn/isolationforest.py)\<close>

subsection \<open>Data\<close>

text \<open>
  An input is a one-dimensional numeric array. Its coordinates are modelled as real
  numbers (finite floats: for them \<open>a - b\<close> is zero exactly when \<open>a = b\<close>).
\<close>

type_synonym vec = "real list"

text \<open>The exceptions the module raises or lets through.\<close>

datatype error =
    TypeError
  | ValueError
  | NoCounterfactualFound

text \<open>
  A float result of numpy: \<open>np.mean\<close> of an empty list is \<open>nan\<close> (with a warning),
  not an exception.
\<close>

datatype npfloat = Finite real | NaN

text \<open>
  \<open>y_target\<close> is the requested label, an integer; \<open>compute_counterfactual\<close> also asks
  whether it is callable, so a callable target is a value of its own. A callable applied
  to a prediction is modelled by the truth value of \<open>f(y) == True\<close>.
\<close>

datatype target = Label int | CallableTarget "int \<Rightarrow> bool"

text \<open>
  The argument \<open>regularization\<close>: \<open>None\<close>, a string, a callable object (a cost function),
  or any other object, which is neither a string nor callable.
\<close>

datatype 'r regularization_arg =
    RegNone
  | RegStr string
  | RegCallable 'r
  | RegOther

text \<open>The argument \<open>C\<close>: a single strength, or a list of strengths.\<close>

datatype C_arg = CScalar real | CList "real list"

text \<open>The argument \<open>model\<close> of the constructors, as \<open>isinstance\<close> sees it: a fitted
  \<open>sklearn.ensemble.IsolationForest\<close>, given by its \<open>estimators_\<close>, or another object.\<close>

datatype 'm pyobject = SkIsolationForest "'m list" | OtherObject

text \<open>One row of the sparse node-indicator matrix that \<open>decision_path\<close> of a tree returns:
  the column indices of its stored entries and their values.\<close>

record csr_row =
  indices :: "nat list"
  data :: "int list"

definition csr_sum :: "csr_row \<Rightarrow> int" where
  "csr_sum r = sum_list (data r)"

text \<open>The attributes of an \<open>IsolationForestCost\<close> object.\<close>

record ('m, 'w) IsolationForestCost =
  cost_models :: "'m list"
  cost_num_models :: nat
  cost_y_target :: target
  cost_input_wrapper :: "'w option"

text \<open>
  The object \<open>RegularizedCost(regularization, loss, C=C)\<close> that \<open>build_loss\<close> creates: the
  class is imported, so the object is the record of its three arguments.
\<close>

record ('m, 'r, 'w) RegularizedCost =
  reg_penalty :: 'r
  reg_loss :: "('m, 'w) IsolationForestCost"
  reg_C :: real

text \<open>
  Code that the module imports and that is not part of it is a parameter of the model:
  the tree library (\<open>decision_path\<close>, \<open>predict\<close>), \<open>.tree\<close> (\<open>get_leafs_from_tree\<close>,
  \<open>score_adjustments\<close>, \<open>apply_adjustment\<close>), \<open>.utils\<close> (\<open>desc_to_regcost\<close>,
  \<open>build_regularization_loss\<close>) and the parent class \<open>SklearnCounterfactual\<close>
  (\<open>wrap_input\<close>, \<open>compute_counterfactual_ex\<close>). They are taken as functions that return.
  Type variables: \<open>'m\<close> a tree, \<open>'p\<close> a step of a leaf path, \<open>'a\<close> an adjustment,
  \<open>'r\<close> a regularization cost, \<open>'o\<close> an optimizer, \<open>'w\<close> an input wrapper, \<open>'k\<close> what
  \<open>wrap_input\<close> returns as \<open>pred\<close> and \<open>grad_mask\<close>.
\<close>

record ('m, 'p, 'a, 'r, 'o, 'w, 'k) collaborators =
  decision_path :: "'m \<Rightarrow> vec \<Rightarrow> csr_row"
  sk_predict :: "'m list \<Rightarrow> vec \<Rightarrow> int"
  get_leafs_from_tree :: "'m \<Rightarrow> 'p list list"
  score_adjustments :: "vec \<Rightarrow> nat list \<Rightarrow> 'p list list \<Rightarrow> 'r \<Rightarrow> (real \<times> 'p list \<times> 'a) list"
  apply_adjustment :: "vec \<Rightarrow> 'a \<Rightarrow> vec"
  desc_to_regcost :: "string \<Rightarrow> vec \<Rightarrow> 'w option \<Rightarrow> error + 'r"
  build_regularization_loss :: "'r \<Rightarrow> vec \<Rightarrow> 'r"
  wrap_input :: "int list option \<Rightarrow> vec \<Rightarrow> 'o \<Rightarrow> 'w option \<times> vec \<times> 'k \<times> 'k"
  compute_counterfactual_ex ::
    "vec \<Rightarrow> ('m, 'r, 'w) RegularizedCost \<Rightarrow> vec \<Rightarrow> unit option \<Rightarrow> 'o \<Rightarrow> 'w option \<Rightarrow> bool \<Rightarrow> vec \<times> int \<times> vec"

subsection \<open>numpy on one-dimensional arrays\<close>

text \<open>\<open>np.min\<close> and \<open>np.max\<close> raise \<open>ValueError\<close> on an empty sequence.\<close>

fun np_min :: "int list \<Rightarrow> error + int" where
  "np_min [] = Inl ValueError"
| "np_min (v # vs) = Inr (fold min vs v)"

fun np_max :: "int list \<Rightarrow> error + int" where
  "np_max [] = Inl ValueError"
| "np_max (v # vs) = Inr (fold max vs v)"

text \<open>\<open>np.mean\<close> of a list of numbers: \<open>nan\<close> when the list is empty.\<close>

definition np_mean :: "int list \<Rightarrow> npfloat" where
  "np_mean vs = (if vs = [] then NaN else Finite (real_of_int (sum_list vs) / real (length vs)))"

text \<open>A Python float times a numpy float.\<close>

fun np_times :: "real \<Rightarrow> npfloat \<Rightarrow> npfloat" where
  "np_times a NaN = NaN"
| "np_times a (Finite b) = Finite (a * b)"

text \<open>
  \<open>a - b\<close> on arrays of shapes \<open>(n,)\<close> and \<open>(m,)\<close>: element by element when \<open>n = m\<close>,
  an array of one element is broadcast, and any other pair of shapes raises \<open>ValueError\<close>.
\<close>

definition np_sub :: "vec \<Rightarrow> vec \<Rightarrow> error + vec" where
  "np_sub a b =
     (if length a = length b then Inr (map2 (-) a b)
      else if length a = 1 then Inr (map (\<lambda>v. hd a - v) b)
      else if length b = 1 then Inr (map (\<lambda>u. u - hd b) a)
      else Inl ValueError)"

subsection \<open>IsolationForestCost\<close>

text \<open>\<open>IsolationForestCost.__init__(self, models, y_target, input_wrapper=None, epsilon=0)\<close>\<close>

definition IsolationForestCost_init ::
  "'m list \<Rightarrow> target \<Rightarrow> 'w option \<Rightarrow> real \<Rightarrow> ('m, 'w) IsolationForestCost" where
  "IsolationForestCost_init models y_target input_wrapper epsilon =
     \<lparr> cost_models = models,
       cost_num_models = length models,
       cost_y_target = y_target,
       cost_input_wrapper = input_wrapper \<rparr>"

text \<open>
  \<open>IsolationForestCost.score_impl\<close>:
  \<open>-1. * self.y_target * np.mean([model.decision_path([x])[0].sum() for model in self.models])\<close>.
  The product is evaluated from the left, so a callable target raises \<open>TypeError\<close> at
  \<open>-1. * self.y_target\<close>.
\<close>

definition score_impl ::
  "('m, 'p, 'a, 'r, 'o, 'w, 'k) collaborators \<Rightarrow> ('m, 'w) IsolationForestCost \<Rightarrow> vec
     \<Rightarrow> error + npfloat" where
  "score_impl E self x =
     (case cost_y_target self of
        CallableTarget f \<Rightarrow> Inl TypeError
      | Label y \<Rightarrow>
          Inr (np_times (-1 * real_of_int y)
                 (np_mean (map (\<lambda>model. csr_sum (decision_path E model x)) (cost_models self)))))"

subsection \<open>IsolationForest\<close>

text \<open>The wrapper keeps the model; \<open>__init__\<close> raises \<open>TypeError\<close> for any other object.\<close>

record 'm IsolationForest =
  forest_model :: "'m list"

definition IsolationForest_init :: "'m pyobject \<Rightarrow> error + 'm IsolationForest" where
  "IsolationForest_init model =
     (case model of
        OtherObject \<Rightarrow> Inl TypeError
      | SkIsolationForest estimators \<Rightarrow> Inr \<lparr> forest_model = estimators \<rparr>)"

definition predict ::
  "('m, 'p, 'a, 'r, 'o, 'w, 'k) collaborators \<Rightarrow> 'm IsolationForest \<Rightarrow> vec \<Rightarrow> int" where
  "predict E self x = sk_predict E (forest_model self) x"

text \<open>\<open>get_loss\<close> leaves \<open>epsilon\<close> at its default.\<close>

definition get_loss :: "'m IsolationForest \<Rightarrow> target \<Rightarrow> 'w option \<Rightarrow> ('m, 'w) IsolationForestCost" where
  "get_loss self y_target input_wrapper =
     IsolationForestCost_init (forest_model self) y_target input_wrapper 0"

subsection \<open>IsolationForestCounterfactual\<close>

text \<open>
  Modelled from the spec: the constructor of the parent class \<open>SklearnCounterfactual\<close> is
  not in the module. The object has the two attributes the module reads, \<open>self.model\<close>
  (the fitted forest) and \<open>self.mymodel\<close> (what \<open>rebuild_model\<close> returns), and
  construction fails when \<open>model\<close> is not of the expected type.
\<close>

record 'm IsolationForestCounterfactual =
  cf_model :: "'m list"
  cf_mymodel :: "'m IsolationForest"

definition rebuild_model :: "'m pyobject \<Rightarrow> error + 'm IsolationForest" where
  "rebuild_model model =
     (case model of
        OtherObject \<Rightarrow> Inl TypeError
      | SkIsolationForest estimators \<Rightarrow> IsolationForest_init model)"

definition IsolationForestCounterfactual_init ::
  "'m pyobject \<Rightarrow> error + 'm IsolationForestCounterfactual" where
  "IsolationForestCounterfactual_init model =
     (case rebuild_model model of
        Inl e \<Rightarrow> Inl e
      | Inr mymodel \<Rightarrow>
          (case model of
             OtherObject \<Rightarrow> Inl TypeError
           | SkIsolationForest estimators \<Rightarrow> Inr \<lparr> cf_model = estimators, cf_mymodel = mymodel \<rparr>))"

text \<open>\<open>build_loss\<close>: the regularization bound to \<open>x_orig\<close>, plus the loss of the forest;
  no gradient.\<close>

definition build_loss ::
  "('m, 'p, 'a, 'r, 'o, 'w, 'k) collaborators \<Rightarrow> 'm IsolationForestCounterfactual \<Rightarrow> 'r \<Rightarrow> vec
     \<Rightarrow> target \<Rightarrow> 'k \<Rightarrow> 'k \<Rightarrow> real \<Rightarrow> 'w option
     \<Rightarrow> ('m, 'r, 'w) RegularizedCost \<times> unit option" where
  "build_loss E self regularization x_orig y_target pred grad_mask C input_wrapper =
     (let regularization = build_regularization_loss E regularization x_orig;
          loss = \<lparr> reg_penalty = regularization,
                   reg_loss = get_loss (cf_mymodel self) y_target input_wrapper,
                   reg_C = C \<rparr>
      in (loss, None))"

subsubsection \<open>Candidates of one tree\<close>

text \<open>\<open>y_target == -1\<close>\<close>

fun requests_outlier :: "target \<Rightarrow> bool" where
  "requests_outlier (Label y) = (y = -1)"
| "requests_outlier (CallableTarget f) = False"

text \<open>Lines 147 to 151: the target length \<open>t\<close>.\<close>

definition target_length :: "target \<Rightarrow> (int \<times> 'p list) list \<Rightarrow> error + int" where
  "target_length y_target length_paths =
     (if requests_outlier y_target
      then np_min (map (\<lambda>z. fst z) length_paths)
      else np_max (map (\<lambda>z. fst z) length_paths))"

text \<open>Lines 153 and 154: the paths that are kept.\<close>

definition near_target_paths :: "int \<Rightarrow> (int \<times> 'p list) list \<Rightarrow> 'p list list" where
  "near_target_paths t length_paths =
     (let length_paths = filter (\<lambda>z. \<bar>fst z - t\<bar> < 2) length_paths
      in map (\<lambda>z. snd z) length_paths)"

text \<open>The local function \<open>used_protected_attributes\<close>: the loop returns at the first index
  outside the whitelist whose difference is not zero.\<close>

definition used_protected_attributes :: "vec \<Rightarrow> vec \<Rightarrow> int list \<Rightarrow> error + bool" where
  "used_protected_attributes x cf features_whitelist =
     (case np_sub x cf of
        Inl e \<Rightarrow> Inl e
      | Inr d \<Rightarrow>
          Inr (list_ex (\<lambda>i. int i \<notin> set features_whitelist \<and> d ! i \<noteq> 0) [0..<length d]))"

text \<open>\<open>list(filter(lambda z: not used_protected_attributes(x, z, features_whitelist), ...))\<close>;
  an exception of the test ends the filter.\<close>

fun drop_protected :: "vec \<Rightarrow> int list \<Rightarrow> vec list \<Rightarrow> error + vec list" where
  "drop_protected x features_whitelist [] = Inr []"
| "drop_protected x features_whitelist (z # zs) =
     (case used_protected_attributes x z features_whitelist of
        Inl e \<Rightarrow> Inl e
      | Inr used \<Rightarrow>
          (case drop_protected x features_whitelist zs of
             Inl e \<Rightarrow> Inl e
           | Inr kept \<Rightarrow> Inr (if \<not> used then z # kept else kept)))"

text \<open>\<open>__compute_counterfactuals_isolationtree\<close>\<close>

definition compute_counterfactuals_isolationtree ::
  "('m, 'p, 'a, 'r, 'o, 'w, 'k) collaborators \<Rightarrow> 'm \<Rightarrow> vec \<Rightarrow> target \<Rightarrow> int list option \<Rightarrow> 'r
     \<Rightarrow> error + vec list" where
  "compute_counterfactuals_isolationtree E model x y_target features_whitelist regularization =
     (let path_of_x = indices (decision_path E model x);
          paths = get_leafs_from_tree E model;
          length_paths = map (\<lambda>p. (int (length p), p)) paths
      in case target_length y_target length_paths of
           Inl e \<Rightarrow> Inl e
         | Inr t \<Rightarrow>
             (let paths = near_target_paths t length_paths;
                  counterfactuals = score_adjustments E x path_of_x paths regularization;
                  counterfactuals = map (\<lambda>cf. apply_adjustment E x (snd (snd cf))) counterfactuals
              in case features_whitelist of
                   None \<Rightarrow> Inr counterfactuals
                 | Some whitelist \<Rightarrow> drop_protected x whitelist counterfactuals))"

subsubsection \<open>Starting points\<close>

text \<open>The loop of \<open>__compute_initial_values\<close> over \<open>self.model.estimators_\<close>.\<close>

fun extend_initial_values ::
  "('m, 'p, 'a, 'r, 'o, 'w, 'k) collaborators \<Rightarrow> vec \<Rightarrow> target \<Rightarrow> int list option \<Rightarrow> 'r
     \<Rightarrow> vec list \<Rightarrow> 'm list \<Rightarrow> error + vec list" where
  "extend_initial_values E x y_target features_whitelist regularization result [] = Inr result"
| "extend_initial_values E x y_target features_whitelist regularization result (m # ms) =
     (case compute_counterfactuals_isolationtree E m x y_target features_whitelist regularization of
        Inl e \<Rightarrow> Inl e
      | Inr cfs \<Rightarrow>
          extend_initial_values E x y_target features_whitelist regularization (result @ cfs) ms)"

definition compute_initial_values ::
  "('m, 'p, 'a, 'r, 'o, 'w, 'k) collaborators \<Rightarrow> 'm IsolationForestCounterfactual \<Rightarrow> vec \<Rightarrow> target
     \<Rightarrow> int list option \<Rightarrow> 'r \<Rightarrow> error + vec list" where
  "compute_initial_values E self x y_target features_whitelist regularization =
     extend_initial_values E x y_target features_whitelist regularization [x] (cf_model self)"

subsubsection \<open>The search\<close>

text \<open>
  Modelled from the spec: \<open>__build_result_dict\<close> of the parent class is not in the module;
  the result is the structured record of counterfactual, prediction and delta (keys
  \<open>x_cf\<close>, \<open>y_cf\<close>, \<open>delta\<close>), or the plain triple.
\<close>

datatype result = ResultDict vec int vec | ResultTriple vec int vec

definition build_result_dict :: "vec \<Rightarrow> int \<Rightarrow> vec \<Rightarrow> result" where
  "build_result_dict x_cf y_cf delta = ResultDict x_cf y_cf delta"

fun result_y_cf :: "result \<Rightarrow> int" where
  "result_y_cf (ResultDict x_cf y_cf delta) = y_cf"
| "result_y_cf (ResultTriple x_cf y_cf delta) = y_cf"

text \<open>
  What one call of \<open>compute_counterfactual\<close> does: whether the warning was given, the
  optimizer runs in the order they were made, each as (starting point, strength), and how
  the call ends.
\<close>

record run =
  warned :: bool
  attempts :: "(vec \<times> real) list"
  outcome :: "error + result"

text \<open>Lines 257 to 260.\<close>

definition resolve_regularization ::
  "('m, 'p, 'a, 'r, 'o, 'w, 'k) collaborators \<Rightarrow> 'r regularization_arg \<Rightarrow> vec \<Rightarrow> error + 'r" where
  "resolve_regularization E regularization x =
     (case regularization of
        RegStr desc \<Rightarrow> desc_to_regcost E desc x None
      | RegCallable r \<Rightarrow> Inr r
      | RegNone \<Rightarrow> Inl TypeError
      | RegOther \<Rightarrow> Inl TypeError)"

text \<open>Line 266:
  \<open>done if done is not None else y_target if callable(y_target) else lambda y: y == y_target\<close>\<close>

definition resolve_done :: "(int \<Rightarrow> bool) option \<Rightarrow> target \<Rightarrow> int \<Rightarrow> bool" where
  "resolve_done done y_target =
     (case done of
        Some d \<Rightarrow> d
      | None \<Rightarrow>
          (case y_target of
             CallableTarget f \<Rightarrow> f
           | Label t \<Rightarrow> (\<lambda>y. y = t)))"

text \<open>
  Modelled from the spec: \<open>warn_if_already_done\<close> of the parent class is not in the module;
  a warning that does not end the call is given when the prediction of \<open>x\<close> already
  satisfies the acceptance. The value is whether the warning is given.
\<close>

definition warn_if_already_done ::
  "('m, 'p, 'a, 'r, 'o, 'w, 'k) collaborators \<Rightarrow> 'm IsolationForestCounterfactual \<Rightarrow> vec
     \<Rightarrow> (int \<Rightarrow> bool) \<Rightarrow> bool" where
  "warn_if_already_done E self x done = done (predict E (cf_mymodel self) x)"

text \<open>Lines 270 and 271.\<close>

fun C_list :: "C_arg \<Rightarrow> real list" where
  "C_list (CList cs) = cs"
| "C_list (CScalar c) = [c]"

text \<open>The inner loop \<open>for c in C\<close> (lines 276 to 287) for one starting point \<open>x0\<close>.\<close>

fun search_C ::
  "('m, 'p, 'a, 'r, 'o, 'w, 'k) collaborators \<Rightarrow> 'm IsolationForestCounterfactual \<Rightarrow> vec \<Rightarrow> target
     \<Rightarrow> 'r \<Rightarrow> 'o \<Rightarrow> bool \<Rightarrow> (int \<Rightarrow> bool) \<Rightarrow> vec \<Rightarrow> 'w option \<times> vec \<times> 'k \<times> 'k
     \<Rightarrow> real list \<Rightarrow> (vec \<times> real) list \<times> result option" where
  "search_C E self x y_target regularization optimizer return_as_dict done x0 wrapped [] =
     ([], None)"
| "search_C E self x y_target regularization optimizer return_as_dict done x0 wrapped (c # cs) =
     (case wrapped of (input_wrapper, x_orig, pred, grad_mask) \<Rightarrow>
        (case build_loss E self regularization x_orig y_target pred grad_mask c input_wrapper of
           (loss, loss_grad) \<Rightarrow>
             (case compute_counterfactual_ex E x loss x_orig loss_grad optimizer input_wrapper False of
                (x_cf, y_cf, delta) \<Rightarrow>
                  if done y_cf
                  then ([(x0, c)],
                        Some (if return_as_dict then build_result_dict x_cf y_cf delta
                              else ResultTriple x_cf y_cf delta))
                  else (case search_C E self x y_target regularization optimizer return_as_dict
                               done x0 wrapped cs of
                          (tried, r) \<Rightarrow> ((x0, c) # tried, r)))))"

text \<open>The outer loop \<open>for x0 in x_start\<close> (lines 273 to 289), and the \<open>raise\<close> after it.\<close>

fun search_x_start ::
  "('m, 'p, 'a, 'r, 'o, 'w, 'k) collaborators \<Rightarrow> 'm IsolationForestCounterfactual \<Rightarrow> vec \<Rightarrow> target
     \<Rightarrow> int list option \<Rightarrow> 'r \<Rightarrow> 'o \<Rightarrow> bool \<Rightarrow> (int \<Rightarrow> bool) \<Rightarrow> real list \<Rightarrow> vec list
     \<Rightarrow> (vec \<times> real) list \<times> (error + result)" where
  "search_x_start E self x y_target features_whitelist regularization optimizer return_as_dict
     done C [] = ([], Inl NoCounterfactualFound)"
| "search_x_start E self x y_target features_whitelist regularization optimizer return_as_dict
     done C (x0 # rest) =
     (case search_C E self x y_target regularization optimizer return_as_dict done x0
             (wrap_input E features_whitelist x0 optimizer) C of
        (tried, Some r) \<Rightarrow> (tried, Inr r)
      | (tried, None) \<Rightarrow>
          (case search_x_start E self x y_target features_whitelist regularization optimizer
                  return_as_dict done C rest of
             (tried', r) \<Rightarrow> (tried @ tried', r)))"

text \<open>\<open>IsolationForestCounterfactual.compute_counterfactual\<close>\<close>

definition compute_counterfactual ::
  "('m, 'p, 'a, 'r, 'o, 'w, 'k) collaborators \<Rightarrow> 'm IsolationForestCounterfactual \<Rightarrow> vec \<Rightarrow> target
     \<Rightarrow> int list option \<Rightarrow> 'r regularization_arg \<Rightarrow> C_arg \<Rightarrow> 'o \<Rightarrow> bool
     \<Rightarrow> (int \<Rightarrow> bool) option \<Rightarrow> run" where
  "compute_counterfactual E self x y_target features_whitelist regularization C optimizer
     return_as_dict done =
     (case resolve_regularization E regularization x of
        Inl e \<Rightarrow> \<lparr> warned = False, attempts = [], outcome = Inl e \<rparr>
      | Inr regularization \<Rightarrow>
          (case compute_initial_values E self x y_target features_whitelist regularization of
             Inl e \<Rightarrow> \<lparr> warned = False, attempts = [], outcome = Inl e \<rparr>
           | Inr x_start \<Rightarrow>
               (let done = resolve_done done y_target;
                    warning = warn_if_already_done E self x done;
                    C = C_list C
                in case search_x_start E self x y_target features_whitelist regularization
                          optimizer return_as_dict done C x_start of
                     (tried, r) \<Rightarrow> \<lparr> warned = warning, attempts = tried, outcome = r \<rparr>)))"

subsection \<open>The entry point\<close>

text \<open>\<open>isolationforest_generate_counterfactual(model, x, y_target, features_whitelist,
  regularization, C, optimizer, return_as_dict)\<close>: the call of \<open>compute_counterfactual\<close>
  passes seven arguments, so \<open>done\<close> keeps its default \<open>None\<close>.\<close>

definition isolationforest_generate_counterfactual ::
  "('m, 'p, 'a, 'r, 'o, 'w, 'k) collaborators \<Rightarrow> 'm pyobject \<Rightarrow> vec \<Rightarrow> target
     \<Rightarrow> int list option \<Rightarrow> 'r regularization_arg \<Rightarrow> C_arg \<Rightarrow> 'o \<Rightarrow> bool \<Rightarrow> run" where
  "isolationforest_generate_counterfactual E model x y_target features_whitelist regularization
     C optimizer return_as_dict =
     (case IsolationForestCounterfactual_init model of
        Inl e \<Rightarrow> \<lparr> warned = False, attempts = [], outcome = Inl e \<rparr>
      | Inr cf \<Rightarrow>
          compute_counterfactual E cf x y_target features_whitelist regularization C optimizer
            return_as_dict None)"

subsection \<open>Orders of attempts and the prediction of one attempt\<close>

text \<open>The order of the two nested loops: every strength for one starting point, then the
  next starting point.\<close>

definition attempt_order :: "vec list \<Rightarrow> real list \<Rightarrow> (vec \<times> real) list" where
  "attempt_order x_start C = concat (map (\<lambda>x0. map (\<lambda>c. (x0, c)) C) x_start)"


text \<open>The prediction \<open>y_cf\<close> that the body of the inner loop computes for the starting point
  and the strength of an attempt.\<close>

definition attempt_y_cf ::
  "('m, 'p, 'a, 'r, 'o, 'w, 'k) collaborators \<Rightarrow> 'm IsolationForestCounterfactual \<Rightarrow> vec \<Rightarrow> target
     \<Rightarrow> int list option \<Rightarrow> 'r \<Rightarrow> 'o \<Rightarrow> vec \<times> real \<Rightarrow> int" where
  "attempt_y_cf E self x y_target features_whitelist regularization optimizer a =
     (case wrap_input E features_whitelist (fst a) optimizer of
        (input_wrapper, x_orig, pred, grad_mask) \<Rightarrow>
          (case build_loss E self regularization x_orig y_target pred grad_mask (snd a)
                  input_wrapper of
             (loss, loss_grad) \<Rightarrow>
               fst (snd (compute_counterfactual_ex E x loss x_orig loss_grad optimizer
                           input_wrapper False))))"

subsection \<open>A small forest\<close>

text \<open>
  Concrete collaborators for evaluating the definitions. A tree is the list of its leaf
  paths, a step of a path is a feature and the value the feature must take, the adjustment
  of a path is the path itself and is applied by overwriting the coordinates. The input
  always reaches the first leaf, and the node indicator has one entry per node on the way.
  The forest predicts the inlier class when the first coordinate is at least 5. The
  optimizer returns its seed.
\<close>

type_synonym example_tree = "(nat \<times> real) list list"

definition example_predict :: "vec \<Rightarrow> int" where
  "example_predict v = (case v of [] \<Rightarrow> - 1 | a # _ \<Rightarrow> if 5 \<le> a then 1 else - 1)"

definition example_collaborators ::
  "(example_tree, nat \<times> real, (nat \<times> real) list, string, string, unit, unit) collaborators" where
  "example_collaborators =
     \<lparr> decision_path =
         (\<lambda>m x. case m of
                  [] \<Rightarrow> \<lparr> indices = [], data = [] \<rparr>
                | p # _ \<Rightarrow> \<lparr> indices = [0..<Suc (length p)],
                              data = replicate (Suc (length p)) 1 \<rparr>),
       sk_predict = (\<lambda>ms v. example_predict v),
       get_leafs_from_tree = (\<lambda>m. m),
       score_adjustments = (\<lambda>x path paths reg. map (\<lambda>p. (0, p, p)) paths),
       apply_adjustment = (\<lambda>x a. fold (\<lambda>iv y. y[fst iv := snd iv]) a x),
       desc_to_regcost =
         (\<lambda>desc x w. if desc = ''l1'' \<or> desc = ''l2'' then Inr desc else Inl ValueError),
       build_regularization_loss = (\<lambda>r x. r),
       wrap_input = (\<lambda>wl x0 opt. (None, x0, (), ())),
       compute_counterfactual_ex =
         (\<lambda>x loss x_orig loss_grad opt iw flag.
            (x_orig, example_predict x_orig, map2 (-) x_orig x)) \<rparr>"

text \<open>A tree with two leaves at depth 1, and a tree with leaves at depths 1 and 3.\<close>

definition example_tree_flat :: example_tree where
  "example_tree_flat = [[(0, 7)], [(1, 3)]]"

definition example_tree_deep :: example_tree where
  "example_tree_deep = [[(0, 7)], [(0, 9), (1, 3), (1, 4)]]"

definition example_self :: "example_tree IsolationForestCounterfactual" where
  "example_self =
     \<lparr> cf_model = [example_tree_flat], cf_mymodel = \<lparr> forest_model = [example_tree_flat] \<rparr> \<rparr>"

text \<open>An acceptance that accepts every prediction.\<close>

definition accept_any :: "int \<Rightarrow> bool" where
  "accept_any y = True"

subsection \<open>Facts about the loops\<close>

lemma fold_min_Min: "fold min vs (v::int) = Min (set (v # vs))"
  by (rule Min.set_eq_fold [symmetric])

lemma fold_max_Max: "fold max vs (v::int) = Max (set (v # vs))"
  by (rule Max.set_eq_fold [symmetric])

lemma np_min_Min: "vs \<noteq> [] \<Longrightarrow> np_min vs = Inr (Min (set vs))"
  by (cases vs) (simp_all only: np_min.simps fold_min_Min)

lemma np_max_Max: "vs \<noteq> [] \<Longrightarrow> np_max vs = Inr (Max (set vs))"
  by (cases vs) (simp_all only: np_max.simps fold_max_Max)

lemma near_target_paths_filter:
  "near_target_paths t (map (\<lambda>p. (int (length p), p)) paths) =
     filter (\<lambda>p. \<bar>int (length p) - t\<bar> < 2) paths"
  by (induction paths) (simp_all add: near_target_paths_def)

lemma used_protected_attributes_same_length:
  assumes "length cf = length x"
  shows "used_protected_attributes x cf wl =
           Inr (\<exists>i<length x. int i \<notin> set wl \<and> cf ! i \<noteq> x ! i)"
proof -
  have d: "np_sub x cf = Inr (map2 (-) x cf)" using assms by (simp add: np_sub_def)
  have "list_ex (\<lambda>i. int i \<notin> set wl \<and> map2 (-) x cf ! i \<noteq> 0) [0..<length (map2 (-) x cf)]
          = (\<exists>i<length x. int i \<notin> set wl \<and> cf ! i \<noteq> x ! i)"
    using assms by (auto simp: list_ex_iff)
  then show ?thesis by (simp add: used_protected_attributes_def d)
qed

lemma drop_protected_kept:
  "drop_protected x wl zs = Inr kept \<Longrightarrow> z \<in> set kept \<Longrightarrow>
     z \<in> set zs \<and> used_protected_attributes x z wl = Inr False"
proof (induction zs arbitrary: kept)
  case Nil
  then show ?case by simp
next
  case (Cons a zs)
  then show ?case
    by (auto split: sum.splits if_splits)
qed

lemma drop_protected_filter:
  "\<forall>z \<in> set zs. length z = length x \<Longrightarrow>
   drop_protected x wl zs = Inr (filter (\<lambda>z. \<forall>i<length x. z ! i \<noteq> x ! i \<longrightarrow> int i \<in> set wl) zs)"
proof (induction zs)
  case Nil
  then show ?case by simp
next
  case (Cons a zs)
  then have "length a = length x" by simp
  from used_protected_attributes_same_length [OF this, of wl] Cons show ?case
    by auto
qed

lemma extend_initial_values_prefix:
  "extend_initial_values E x y_target wl reg result ms = Inr r \<Longrightarrow> prefix result r"
proof (induction ms arbitrary: result)
  case Nil
  then show ?case by simp
next
  case (Cons m ms)
  then show ?case
    by (auto split: sum.splits dest: append_prefixD)
qed

lemma extend_initial_values_returns:
  "\<forall>m \<in> set ms. compute_counterfactuals_isolationtree E m x y_target wl reg = Inr (f m) \<Longrightarrow>
   extend_initial_values E x y_target wl reg result ms = Inr (result @ concat (map f ms))"
  by (induction ms arbitrary: result) simp_all




lemma search_C_spec:
  "wrap_input E wl x0 opt = wrapped \<Longrightarrow>
   search_C E self x y_target reg opt rad accept x0 wrapped cs = (tried, r) \<Longrightarrow>
     prefix tried (map (\<lambda>c. (x0, c)) cs) \<and>
     (\<forall>a \<in> set (butlast tried). \<not> accept (attempt_y_cf E self x y_target wl reg opt a)) \<and>
     (case r of
        None \<Rightarrow> tried = map (\<lambda>c. (x0, c)) cs \<and>
                 (\<forall>a \<in> set tried. \<not> accept (attempt_y_cf E self x y_target wl reg opt a))
      | Some res \<Rightarrow> tried \<noteq> [] \<and> accept (result_y_cf res) \<and>
                    result_y_cf res = attempt_y_cf E self x y_target wl reg opt (last tried))"
proof (induction cs arbitrary: tried r)
  case Nil
  then show ?case by simp
next
  case (Cons c cs)
  obtain iw x_orig pred gm where w: "wrapped = (iw, x_orig, pred, gm)"
    by (cases wrapped) auto
  obtain loss lg where l: "build_loss E self reg x_orig y_target pred gm c iw = (loss, lg)"
    by (cases "build_loss E self reg x_orig y_target pred gm c iw") auto
  obtain x_cf y_cf delta where o: "compute_counterfactual_ex E x loss x_orig lg opt iw False = (x_cf, y_cf, delta)"
    by (cases "compute_counterfactual_ex E x loss x_orig lg opt iw False") auto
  have y: "attempt_y_cf E self x y_target wl reg opt (x0, c) = y_cf"
    using Cons.prems(1) by (simp add: attempt_y_cf_def w l o)
  from Cons.prems(2) have P: "search_C E self x y_target reg opt rad accept x0 (iw, x_orig, pred, gm) (c # cs) = (tried, r)"
    unfolding w .
  show ?case
  proof (cases "accept y_cf")
    case True
    with P l o have "tried = [(x0, c)]" "r = Some (if rad then build_result_dict x_cf y_cf delta else ResultTriple x_cf y_cf delta)"
      by simp_all
    with True y show ?thesis
      by (simp add: build_result_dict_def)
  next
    case False
    obtain tried' r' where rec: "search_C E self x y_target reg opt rad accept x0 (iw, x_orig, pred, gm) cs = (tried', r')"
      by (cases "search_C E self x y_target reg opt rad accept x0 (iw, x_orig, pred, gm) cs") auto
    from Cons.IH [OF Cons.prems(1) rec [folded w]] have ih: "prefix tried' (map (\<lambda>c. (x0, c)) cs)"
      "\<forall>a \<in> set (butlast tried'). \<not> accept (attempt_y_cf E self x y_target wl reg opt a)"
      "case r' of
        None \<Rightarrow> tried' = map (\<lambda>c. (x0, c)) cs \<and>
                 (\<forall>a \<in> set tried'. \<not> accept (attempt_y_cf E self x y_target wl reg opt a))
      | Some res \<Rightarrow> tried' \<noteq> [] \<and> accept (result_y_cf res) \<and>
                    result_y_cf res = attempt_y_cf E self x y_target wl reg opt (last tried')"
      by simp_all
    from P False l o rec have eq: "tried = (x0, c) # tried'" "r = r'"
      by simp_all
    show ?thesis
    proof (cases r')
      case None
      with ih False y show ?thesis unfolding eq by simp
    next
      case (Some res)
      with ih False y show ?thesis unfolding eq
        by (auto dest: in_set_butlastD)
    qed
  qed
qed

lemma attempt_order_Cons:
  "attempt_order (x0 # rest) C = map (\<lambda>c. (x0, c)) C @ attempt_order rest C"
  by (simp add: attempt_order_def)

lemma search_x_start_spec:
  "search_x_start E self x y_target wl reg opt rad accept C xs = (tried, out) \<Longrightarrow>
     prefix tried (attempt_order xs C) \<and>
     (\<forall>a \<in> set (butlast tried). \<not> accept (attempt_y_cf E self x y_target wl reg opt a)) \<and>
     (case out of
        Inl e \<Rightarrow> e = NoCounterfactualFound \<and> tried = attempt_order xs C \<and>
                 (\<forall>a \<in> set tried. \<not> accept (attempt_y_cf E self x y_target wl reg opt a))
      | Inr res \<Rightarrow> tried \<noteq> [] \<and> accept (result_y_cf res) \<and>
                    result_y_cf res = attempt_y_cf E self x y_target wl reg opt (last tried))"
proof (induction xs arbitrary: tried out)
  case Nil
  then show ?case by (auto simp: attempt_order_def)
next
  case (Cons x0 rest)
  obtain t1 r1 where in1:
    "search_C E self x y_target reg opt rad accept x0 (wrap_input E wl x0 opt) C = (t1, r1)"
    by (cases "search_C E self x y_target reg opt rad accept x0 (wrap_input E wl x0 opt) C") auto
  note s1 = search_C_spec [OF refl in1]
  show ?case
  proof (cases r1)
    case (Some res)
    with Cons.prems in1 have eq: "tried = t1" "out = Inr res" by simp_all
    from s1 Some show ?thesis
      unfolding eq attempt_order_Cons by (auto simp: prefix_prefix)
  next
    case None
    obtain t2 out2 where in2:
      "search_x_start E self x y_target wl reg opt rad accept C rest = (t2, out2)"
      by (cases "search_x_start E self x y_target wl reg opt rad accept C rest") auto
    from Cons.prems in1 None in2 have eq: "tried = t1 @ t2" "out = out2" by simp_all
    from s1 None have full: "t1 = map (\<lambda>c. (x0, c)) C"
      and rej: "\<forall>a \<in> set t1. \<not> accept (attempt_y_cf E self x y_target wl reg opt a)"
      by simp_all
    note ih = Cons.IH [OF in2]
    have bl: "\<forall>a \<in> set (butlast (t1 @ t2)). \<not> accept (attempt_y_cf E self x y_target wl reg opt a)"
      using rej ih by (auto simp: butlast_append dest: in_set_butlastD)
    have pf: "prefix (t1 @ t2) (attempt_order (x0 # rest) C)"
      using ih unfolding attempt_order_Cons full by simp
    show ?thesis
    proof (cases out2)
      case (Inl e)
      with ih rej bl pf show ?thesis unfolding eq
        by (auto simp: attempt_order_Cons full)
    next
      case (Inr res)
      with ih bl pf show ?thesis unfolding eq by auto
    qed
  qed
qed

lemma isolationtree_whitelist:
  "compute_counterfactuals_isolationtree E model x y_target None reg = Inr candidates \<Longrightarrow>
   compute_counterfactuals_isolationtree E model x y_target (Some wl) reg =
     drop_protected x wl candidates"
  by (auto simp: compute_counterfactuals_isolationtree_def Let_def split: sum.splits)

lemma isolationtree_whitelist_kept:
  "compute_counterfactuals_isolationtree E model x y_target (Some wl) reg = Inr cfs \<Longrightarrow>
   \<exists>zs. drop_protected x wl zs = Inr cfs"
  by (auto simp: compute_counterfactuals_isolationtree_def Let_def split: sum.splits)

lemma extend_initial_values_total:
  assumes "\<forall>m \<in> set ms. \<exists>cs. compute_counterfactuals_isolationtree E m x y_target wl reg = Inr cs"
  shows "\<exists>r. extend_initial_values E x y_target wl reg result ms = Inr r"
proof -
  from bchoice [OF assms] obtain f
    where "\<forall>m \<in> set ms. compute_counterfactuals_isolationtree E m x y_target wl reg = Inr (f m)"
    by blast
  from extend_initial_values_returns [OF this] show ?thesis by blast
qed

lemma compute_counterfactual_search:
  assumes "resolve_regularization E regularization x = Inr reg"
      and "compute_initial_values E self x y_target wl reg = Inr x_start"
  shows "search_x_start E self x y_target wl reg opt rad (resolve_done accept y_target)
           (C_list C) x_start =
         (attempts (compute_counterfactual E self x y_target wl regularization C opt rad accept),
          outcome (compute_counterfactual E self x y_target wl regularization C opt rad accept))"
  using assms by (simp add: compute_counterfactual_def Let_def split: prod.splits)

lemmas example_defs =
  example_collaborators_def example_self_def example_tree_flat_def example_tree_deep_def
  example_predict_def compute_initial_values_def compute_counterfactuals_isolationtree_def
  target_length_def near_target_paths_def resolve_regularization_def resolve_done_def
  warn_if_already_done_def build_loss_def compute_counterfactual_def
  used_protected_attributes_def np_sub_def

section \<open>The claims\<close>

subsection \<open>C1: the order of the attempts\<close>




subsection \<open>C2: no regularization\<close>

text \<open>
  C2 is what the docstring promises ("If \<open>regularization\<close> is None, no regularization is
  used"), and the code does not do it: \<open>None\<close> is neither a string nor callable, so line
  260 raises \<open>TypeError\<close> before any starting point is computed or tried, whatever the
  other arguments are.
\<close>

theorem regularization_None_raises_TypeError:
  "outcome (compute_counterfactual E self x y_target wl RegNone C opt rad accept) = Inl TypeError \<and>
   attempts (compute_counterfactual E self x y_target wl RegNone C opt rad accept) = []"
  by (simp add: compute_counterfactual_def resolve_regularization_def)

subsection \<open>C3: the paths that are kept\<close>

text \<open>
  C3 is what the comment of line 153 says (paths that deviate more than 2 are removed), and
  the code tests \<open>< 2\<close>: a path at distance exactly 2 is removed. The tree has leaf paths
  of lengths 1 and 3, the target is the outlier class, so \<open>t = 1\<close>; the path of length 3
  is at distance 2 and is dropped, and only the candidate of the short path is returned.
\<close>

theorem path_at_distance_two_dropped:
  "get_leafs_from_tree example_collaborators example_tree_deep
     = [[(0, 7)], [(0, 9), (1, 3), (1, 4)]] \<and>
   target_length (Label (- 1)) [(1, [(0 :: nat, 7 :: real)]), (3, [(0, 9), (1, 3), (1, 4)])]
     = Inr 1 \<and>
   near_target_paths 1 [(1, [(0 :: nat, 7 :: real)]), (3, [(0, 9), (1, 3), (1, 4)])]
     = [[(0, 7)]] \<and>
   compute_counterfactuals_isolationtree example_collaborators example_tree_deep [0, 0]
     (Label (- 1)) None ''l1'' = Inr [[7, 0]]"
  by (simp add: example_defs)

subsection \<open>C4: the outcomes of the search\<close>




subsection \<open>C5: the feature whitelist\<close>

text \<open>
  C5: with a whitelist, a candidate that is returned for one tree differs from \<open>x\<close> only at
  whitelisted indices. The candidates returned are exactly the candidates of the call
  without whitelist that differ from \<open>x\<close> at whitelisted indices only: a coordinate that
  equals the original one never counts, whatever its index, and every candidate that
  changes a coordinate outside the whitelist is dropped. Candidates have the shape of \<open>x\<close>.
\<close>

theorem whitelist_respected:
  "(compute_counterfactuals_isolationtree E model x y_target (Some wl) reg = Inr cfs \<longrightarrow>
      cf \<in> set cfs \<longrightarrow> length cf = length x \<longrightarrow>
      (\<forall>i<length x. cf ! i \<noteq> x ! i \<longrightarrow> int i \<in> set wl)) \<and>
   (compute_counterfactuals_isolationtree E model x y_target None reg = Inr candidates \<longrightarrow>
      (\<forall>z \<in> set candidates. length z = length x) \<longrightarrow>
      compute_counterfactuals_isolationtree E model x y_target (Some wl) reg =
        Inr (filter (\<lambda>z. \<forall>i<length x. z ! i \<noteq> x ! i \<longrightarrow> int i \<in> set wl) candidates))"
proof (intro conjI impI)
  assume gen: "compute_counterfactuals_isolationtree E model x y_target (Some wl) reg = Inr cfs"
    and mem: "cf \<in> set cfs" and len: "length cf = length x"
  from isolationtree_whitelist_kept [OF gen] obtain zs where "drop_protected x wl zs = Inr cfs"
    by blast
  from drop_protected_kept [OF this mem]
  have "used_protected_attributes x cf wl = Inr False" by simp
  with used_protected_attributes_same_length [OF len, of wl]
  show "\<forall>i<length x. cf ! i \<noteq> x ! i \<longrightarrow> int i \<in> set wl" by auto
next
  assume "compute_counterfactuals_isolationtree E model x y_target None reg = Inr candidates"
    and "\<forall>z \<in> set candidates. length z = length x"
  then show "compute_counterfactuals_isolationtree E model x y_target (Some wl) reg =
        Inr (filter (\<lambda>z. \<forall>i<length x. z ! i \<noteq> x ! i \<longrightarrow> int i \<in> set wl) candidates)"
    by (simp add: isolationtree_whitelist drop_protected_filter)
qed

text \<open>C5 on the small forest: of the candidates \<open>[7, 0]\<close> and \<open>[0, 3]\<close> the whitelist \<open>[0]\<close>
  keeps \<open>[7, 0]\<close>, whose second coordinate is the original one.\<close>

theorem whitelist_respected_witness:
  "compute_counterfactuals_isolationtree example_collaborators example_tree_flat [0, 0] (Label 1)
     None ''l1'' = Inr [[7, 0], [0, 3]] \<and>
   compute_counterfactuals_isolationtree example_collaborators example_tree_flat [0, 0] (Label 1)
     (Some [0]) ''l1'' = Inr [[7, 0]] \<and>
   [7, 0 :: real] ! 1 = [0, 0] ! 1"
proof -
  have h1: "compute_counterfactuals_isolationtree example_collaborators example_tree_flat [0, 0]
              (Label 1) None ''l1'' = Inr [[7, 0], [0, 3]]"
    by (simp add: example_defs)
  have h2: "\<forall>z \<in> set [[7, 0], [0, 3 :: real]]. length z = length [0, 0 :: real]"
    by simp
  have h3: "compute_counterfactuals_isolationtree example_collaborators example_tree_flat [0, 0]
              (Label 1) (Some [0]) ''l1'' = Inr [[7, 0]]"
    by (simp add: example_defs)
  have h4: "[7, 0 :: real] \<in> set [[7, 0]]" "length [7, 0 :: real] = length [0, 0 :: real]"
    by simp_all
  from whitelist_respected [of example_collaborators example_tree_flat "[0, 0]" "Label 1" "[0]"
         "''l1''" "[[7, 0]]" "[7, 0]" "[[7, 0], [0, 3]]"] h1 h2 h3 h4
  show ?thesis by simp
qed

subsection \<open>C6: the target length\<close>

text \<open>
  C6: for a tree with at least one leaf path, the target length \<open>t\<close> is the minimum of the
  lengths of the leaf paths when \<open>y_target == -1\<close>, and the maximum otherwise.
\<close>

theorem target_length_min_max:
  assumes "get_leafs_from_tree E model \<noteq> []"
  shows "target_length y_target (map (\<lambda>p. (int (length p), p)) (get_leafs_from_tree E model)) =
           Inr (if y_target = Label (- 1)
                then Min ((\<lambda>p. int (length p)) ` set (get_leafs_from_tree E model))
                else Max ((\<lambda>p. int (length p)) ` set (get_leafs_from_tree E model)))"
proof -
  let ?ls = "map (\<lambda>z. fst z) (map (\<lambda>p. (int (length p), p)) (get_leafs_from_tree E model))"
  have ne: "?ls \<noteq> []" using assms by simp
  have img: "set ?ls = (\<lambda>p. int (length p)) ` set (get_leafs_from_tree E model)"
    by (simp add: image_image)
  have ro: "requests_outlier y_target = (y_target = Label (- 1))"
    by (cases y_target) simp_all
  show ?thesis
    unfolding target_length_def ro using np_min_Min [OF ne] np_max_Max [OF ne] img
    by simp
qed

text \<open>C6 on the tree with leaf paths of lengths 1 and 3.\<close>

theorem target_length_min_max_witness:
  "get_leafs_from_tree example_collaborators example_tree_deep \<noteq> [] \<and>
   target_length (Label (- 1)) [(1, [(0 :: nat, 7 :: real)]), (3, [(0, 9), (1, 3), (1, 4)])]
     = Inr 1 \<and>
   target_length (Label 1) [(1, [(0 :: nat, 7 :: real)]), (3, [(0, 9), (1, 3), (1, 4)])]
     = Inr 3"
proof -
  have h: "get_leafs_from_tree example_collaborators example_tree_deep \<noteq> []"
    by (simp add: example_defs)
  from target_length_min_max [OF h, of "Label (- 1)"] target_length_min_max [OF h, of "Label 1"] h
  show ?thesis by (simp add: example_defs)
qed

subsection \<open>C7: the loss\<close>



subsection \<open>C8: the starting points\<close>

text \<open>
  C8: a list of starting points that \<open>__compute_initial_values\<close> returns is not empty and
  its first element is \<open>x\<close>; and the list is returned whenever the generator of every tree
  returns, whatever it contributes.
\<close>

theorem initial_values_begin_with_x:
  "(compute_initial_values E self x y_target wl reg = Inr r \<longrightarrow> r \<noteq> [] \<and> hd r = x) \<and>
   ((\<forall>m \<in> set (cf_model self).
       \<exists>cs. compute_counterfactuals_isolationtree E m x y_target wl reg = Inr cs) \<longrightarrow>
    (\<exists>rest. compute_initial_values E self x y_target wl reg = Inr (x # rest)))"
proof (rule conjI; rule impI)
  assume "compute_initial_values E self x y_target wl reg = Inr r"
  then have "prefix [x] r"
    unfolding compute_initial_values_def by (rule extend_initial_values_prefix)
  then show "r \<noteq> [] \<and> hd r = x" by (auto simp: prefix_def)
next
  assume "\<forall>m \<in> set (cf_model self).
            \<exists>cs. compute_counterfactuals_isolationtree E m x y_target wl reg = Inr cs"
  from extend_initial_values_total [OF this, of "[x]"] obtain r
    where r: "extend_initial_values E x y_target wl reg [x] (cf_model self) = Inr r" by blast
  from extend_initial_values_prefix [OF r] obtain rest where "r = x # rest"
    by (auto simp: prefix_def)
  with r show "\<exists>rest. compute_initial_values E self x y_target wl reg = Inr (x # rest)"
    by (simp add: compute_initial_values_def)
qed

text \<open>C8 on the small forest.\<close>

theorem initial_values_begin_with_x_witness:
  "compute_counterfactuals_isolationtree example_collaborators example_tree_flat [0, 0] (Label 1)
     None ''l1'' = Inr [[7, 0], [0, 3]] \<and>
   compute_initial_values example_collaborators example_self [0, 0] (Label 1) None ''l1''
     = Inr [[0, 0], [7, 0], [0, 3]] \<and>
   hd [[0, 0], [7, 0], [0, 3 :: real]] = [0, 0]"
proof -
  have h1: "compute_counterfactuals_isolationtree example_collaborators example_tree_flat [0, 0]
              (Label 1) None ''l1'' = Inr [[7, 0], [0, 3]]"
    by (simp add: example_defs)
  have h2: "compute_initial_values example_collaborators example_self [0, 0] (Label 1) None ''l1''
              = Inr [[0, 0], [7, 0], [0, 3]]"
    by (simp add: example_defs)
  from initial_values_begin_with_x [of example_collaborators example_self "[0, 0]" "Label 1" None
         "''l1''" "[[0, 0], [7, 0], [0, 3]]"] h1 h2
  show ?thesis by simp
qed

subsection \<open>C9: the entry point\<close>

text \<open>
  C9, as stated, fails: \<open>isolationforest_generate_counterfactual\<close> has no parameter for an
  acceptance, and its outcome is that of the search with exact equality. For the input
  \<open>[0, 0]\<close> and the inlier target, the search with an acceptance that accepts every
  prediction returns \<open>[0, 0]\<close> itself, with prediction \<open>-1\<close>; the entry point returns
  \<open>[7, 0]\<close>, the first result whose prediction equals the target.
\<close>

theorem entry_point_acceptance_counterexample:
  "outcome (compute_counterfactual example_collaborators example_self [0, 0] (Label 1) None
              (RegStr ''l1'') (CScalar 1) ''nelder-mead'' False (Some accept_any))
     = Inr (ResultTriple [0, 0] (- 1) [0, 0]) \<and>
   outcome (isolationforest_generate_counterfactual example_collaborators
              (SkIsolationForest [example_tree_flat]) [0, 0] (Label 1) None
              (RegStr ''l1'') (CScalar 1) ''nelder-mead'' False)
     = Inr (ResultTriple [7, 0] 1 [7, 0])"
  by (simp add: example_defs accept_any_def isolationforest_generate_counterfactual_def
        IsolationForestCounterfactual_init_def rebuild_model_def IsolationForest_init_def)

text \<open>
  C9, amended: the entry point accepts \<open>model\<close>, \<open>x\<close>, \<open>y_target\<close>, \<open>features_whitelist\<close>,
  \<open>regularization\<close>, \<open>C\<close>, \<open>optimizer\<close> and \<open>return_as_dict\<close>, and no acceptance. For an
  isolation forest it is \<open>compute_counterfactual\<close> with \<open>done=None\<close>, so for a label
  \<open>y_target\<close> a result is returned only with \<open>y_cf\<close> equal to \<open>y_target\<close>; for any other
  model it raises \<open>TypeError\<close>.
\<close>

theorem entry_point_done_None:
  "isolationforest_generate_counterfactual E (SkIsolationForest estimators) x y_target wl
     regularization C opt rad =
     compute_counterfactual E
       \<lparr> cf_model = estimators, cf_mymodel = \<lparr> forest_model = estimators \<rparr> \<rparr>
       x y_target wl regularization C opt rad None \<and>
   (outcome (isolationforest_generate_counterfactual E (SkIsolationForest estimators) x (Label t) wl
               regularization C opt rad) = Inr r \<longrightarrow> result_y_cf r = t) \<and>
   outcome (isolationforest_generate_counterfactual E OtherObject x y_target wl
              regularization C opt rad) = Inl TypeError"
proof -
  have eq: "\<And>y. isolationforest_generate_counterfactual E (SkIsolationForest estimators) x y wl
     regularization C opt rad =
     compute_counterfactual E
       \<lparr> cf_model = estimators, cf_mymodel = \<lparr> forest_model = estimators \<rparr> \<rparr>
       x y wl regularization C opt rad None"
    by (simp add: isolationforest_generate_counterfactual_def
          IsolationForestCounterfactual_init_def rebuild_model_def IsolationForest_init_def)
  have ty: "outcome (isolationforest_generate_counterfactual E OtherObject x y_target wl
              regularization C opt rad) = Inl TypeError"
    by (simp add: isolationforest_generate_counterfactual_def
          IsolationForestCounterfactual_init_def rebuild_model_def)
  have acc: "result_y_cf r = t"
    if o: "outcome (compute_counterfactual E
              \<lparr> cf_model = estimators, cf_mymodel = \<lparr> forest_model = estimators \<rparr> \<rparr>
              x (Label t) wl regularization C opt rad None) = Inr r"
  proof -
    let ?self = "\<lparr> cf_model = estimators, cf_mymodel = \<lparr> forest_model = estimators \<rparr> \<rparr>"
    from o obtain reg where reg: "resolve_regularization E regularization x = Inr reg"
      by (cases "resolve_regularization E regularization x")
         (simp_all add: compute_counterfactual_def)
    from o reg obtain x_start
      where xs: "compute_initial_values E ?self x (Label t) wl reg = Inr x_start"
      by (cases "compute_initial_values E ?self x (Label t) wl reg")
         (simp_all add: compute_counterfactual_def)
    from search_x_start_spec [OF compute_counterfactual_search [OF reg xs, of opt rad None C]] o
    show ?thesis by (simp add: resolve_done_def)
  qed
  from eq ty acc show ?thesis by simp
qed

text \<open>C9, amended, on the small forest.\<close>

theorem entry_point_done_None_witness:
  "outcome (isolationforest_generate_counterfactual example_collaborators
              (SkIsolationForest [example_tree_flat]) [0, 0] (Label 1) None
              (RegStr ''l1'') (CScalar 1) ''nelder-mead'' False)
     = Inr (ResultTriple [7, 0] 1 [7, 0]) \<and>
   result_y_cf (ResultTriple [7, 0] 1 [7, 0]) = 1"
proof -
  have h: "outcome (isolationforest_generate_counterfactual example_collaborators
              (SkIsolationForest [example_tree_flat]) [0, 0] (Label 1) None
              (RegStr ''l1'') (CScalar 1) ''nelder-mead'' False)
     = Inr (ResultTriple [7, 0] 1 [7, 0])"
    by (simp add: example_defs isolationforest_generate_counterfactual_def
          IsolationForestCounterfactual_init_def rebuild_model_def IsolationForest_init_def)
  from entry_point_done_None [of example_collaborators "[example_tree_flat]" "[0, 0]" "Label 1"
         None "RegStr ''l1''" "CScalar 1" "''nelder-mead''" False 1 "ResultTriple [7, 0] 1 [7, 0]"] h
  show ?thesis by simp
qed

subsection \<open>C10: the argument epsilon\<close>

text \<open>
  C10: \<open>epsilon\<close> is accepted by the constructor of the loss and never stored, so two
  losses that differ only in it are the same object and give the same score for every
  \<open>x\<close>.
\<close>

theorem epsilon_has_no_effect:
  "IsolationForestCost_init models y_target input_wrapper e1 =
     IsolationForestCost_init models y_target input_wrapper e2 \<and>
   score_impl E (IsolationForestCost_init models y_target input_wrapper e1) x =
     score_impl E (IsolationForestCost_init models y_target input_wrapper e2) x"
  by (simp add: IsolationForestCost_init_def)

end
